theory Spec2Isabelle
  imports Main
begin

section \<open>Go values as the template functions receive them\<close>

text \<open>
  The functions of \<^verbatim>\<open>pkg/engine/funcs.go\<close> take and return \<^verbatim>\<open>interface{}\<close> values and
  inspect them with package \<^verbatim>\<open>reflect\<close>. A value is modelled together with the Go type it
  carries at run time: the dynamic values of templates (nil, booleans, integers, strings,
  slices, arrays, maps) and the Go objects a chart exposes (structs and pointers).
  Not represented: floating point numbers, functions, channels, named non-struct types,
  embedded (promoted) struct fields and cyclic pointer structures. A pointer is modelled
  by the value it points to, so two pointers to equal values are not told apart.
\<close>

datatype gtype =
    TBool
  | TInt
  | TString
  | TInterface
  | TSlice gtype
  | TArray nat gtype
  | TMap gtype gtype
  | TPtr gtype
  | TStruct string

datatype gval =
    VNil
  | VBool bool
  | VInt int
  | VString string
  | VSlice gtype "gval list"
  | VNilSlice gtype
  | VArray gtype "gval list"
  | VMap gtype gtype "(gval \<times> gval) list"
  | VNilMap gtype gtype
  | VStruct string "(string \<times> gtype \<times> gval) list"
  | VPtr gtype gval
  | VNilPtr gtype

text \<open>
  \<open>VNil\<close> is the nil interface value. \<open>VSlice t xs\<close> is a non-nil \<^verbatim>\<open>[]t\<close>, \<open>VArray t xs\<close> a
  \<^verbatim>\<open>[n]t\<close> with \<open>n = length xs\<close>, \<open>VMap k e m\<close> a non-nil \<^verbatim>\<open>map[k]e\<close> whose entries are
  listed in the order \<^verbatim>\<open>MapKeys\<close> returns them (Go leaves that order unspecified),
  \<open>VStruct n fs\<close> a struct of the named type \<open>n\<close> with its fields (name, declared type,
  content) in declaration order, \<open>VPtr t x\<close> a non-nil \<^verbatim>\<open>*t\<close> pointing to \<open>x\<close>.
\<close>

datatype kind =
    KInvalid | KBool | KInt | KString | KInterface
  | KSlice | KArray | KMap | KPtr | KStruct

fun kindOf :: "gtype \<Rightarrow> kind" where
  "kindOf TBool = KBool"
| "kindOf TInt = KInt"
| "kindOf TString = KString"
| "kindOf TInterface = KInterface"
| "kindOf (TSlice _) = KSlice"
| "kindOf (TArray _ _) = KArray"
| "kindOf (TMap _ _) = KMap"
| "kindOf (TPtr _) = KPtr"
| "kindOf (TStruct _) = KStruct"

text \<open>\<^verbatim>\<open>Kind.String()\<close>, which \<^verbatim>\<open>%s\<close> prints.\<close>

fun kindString :: "kind \<Rightarrow> string" where
  "kindString KInvalid = ''invalid''"
| "kindString KBool = ''bool''"
| "kindString KInt = ''int''"
| "kindString KString = ''string''"
| "kindString KInterface = ''interface''"
| "kindString KSlice = ''slice''"
| "kindString KArray = ''array''"
| "kindString KMap = ''map''"
| "kindString KPtr = ''ptr''"
| "kindString KStruct = ''struct''"

fun decimal :: "nat \<Rightarrow> string" where
  "decimal n =
     (if n < 10 then [char_of (48 + n)]
      else decimal (n div 10) @ [char_of (48 + n mod 10)])"

declare decimal.simps [simp del]

text \<open>\<^verbatim>\<open>Type.String()\<close>.\<close>

fun typeString :: "gtype \<Rightarrow> string" where
  "typeString TBool = ''bool''"
| "typeString TInt = ''int''"
| "typeString TString = ''string''"
| "typeString TInterface = ''interface {}''"
| "typeString (TSlice t) = ''[]'' @ typeString t"
| "typeString (TArray n t) = ''['' @ decimal n @ '']'' @ typeString t"
| "typeString (TMap k e) = ''map['' @ typeString k @ '']'' @ typeString e"
| "typeString (TPtr t) = ''*'' @ typeString t"
| "typeString (TStruct n) = n"

text \<open>\<^verbatim>\<open>reflect.TypeOf\<close>: the dynamic type, and no type for the nil interface.\<close>

fun typeOf :: "gval \<Rightarrow> gtype option" where
  "typeOf VNil = None"
| "typeOf (VBool _) = Some TBool"
| "typeOf (VInt _) = Some TInt"
| "typeOf (VString _) = Some TString"
| "typeOf (VSlice t _) = Some (TSlice t)"
| "typeOf (VNilSlice t) = Some (TSlice t)"
| "typeOf (VArray t xs) = Some (TArray (length xs) t)"
| "typeOf (VMap k e _) = Some (TMap k e)"
| "typeOf (VNilMap k e) = Some (TMap k e)"
| "typeOf (VStruct n _) = Some (TStruct n)"
| "typeOf (VPtr t _) = Some (TPtr t)"
| "typeOf (VNilPtr t) = Some (TPtr t)"

subsection \<open>Panics\<close>

datatype panic =
    NilDereference
  | InterfaceConversion
  | ValueError
  | ErrorValue string

text \<open>
  \<open>NilDereference\<close>: a method call on the nil \<^verbatim>\<open>reflect.Type\<close>; \<open>InterfaceConversion\<close>: a
  failed type assertion \<^verbatim>\<open>k.(string)\<close>; \<open>ValueError\<close>: package reflect's panic for a
  method called on a \<^verbatim>\<open>Value\<close> of the wrong kind; \<open>ErrorValue e\<close>: \<^verbatim>\<open>panic(err)\<close> with the
  error whose text is \<open>e\<close>.
\<close>

datatype 'a outcome = Panic panic | Return 'a

subsection \<open>The operations of package reflect that the code calls\<close>

text \<open>
  A \<^verbatim>\<open>reflect.Value\<close> is the zero Value or a content with the static type it was obtained
  at (a struct field or a map key declared \<^verbatim>\<open>interface{}\<close> has kind Interface whatever
  it holds).
\<close>

datatype rvalue = Zero | RV gtype gval

definition valueOf :: "gval \<Rightarrow> rvalue" where
  "valueOf x = (case typeOf x of None \<Rightarrow> Zero | Some t \<Rightarrow> RV t x)"

fun rkind :: "rvalue \<Rightarrow> kind" where
  "rkind Zero = KInvalid"
| "rkind (RV t _) = kindOf t"

text \<open>
  \<^verbatim>\<open>Value.String()\<close> does not panic on other kinds: it returns the string of a Value of
  kind String, \<^verbatim>\<open><invalid Value>\<close> for the zero Value and \<^verbatim>\<open><T Value>\<close> for a Value of any
  other type \<^verbatim>\<open>T\<close>.
\<close>

fun rstring :: "rvalue \<Rightarrow> string" where
  "rstring Zero = ''<invalid Value>''"
| "rstring (RV TString (VString s)) = s"
| "rstring (RV t _) = ''<'' @ typeString t @ '' Value>''"

text \<open>\<^verbatim>\<open>Value.MapKeys()\<close>, called on a Value of kind Map only.\<close>

fun mapKeys :: "rvalue \<Rightarrow> rvalue list" where
  "mapKeys (RV (TMap kt _) (VMap _ _ m)) = map (\<lambda>(key, _). RV kt key) m"
| "mapKeys _ = []"

text \<open>\<^verbatim>\<open>Value.MapIndex(key)\<close>: the zero Value when the key is not in the map.\<close>

fun mapIndex :: "rvalue \<Rightarrow> rvalue \<Rightarrow> rvalue" where
  "mapIndex (RV (TMap _ et) (VMap _ _ m)) (RV _ key) =
     (case map_of m key of None \<Rightarrow> Zero | Some x \<Rightarrow> RV et x)"
| "mapIndex _ _ = Zero"

text \<open>\<^verbatim>\<open>Value.Interface()\<close>: the content as an \<^verbatim>\<open>interface{}\<close>; it panics on the zero Value.\<close>

fun interface :: "rvalue \<Rightarrow> gval outcome" where
  "interface Zero = Panic ValueError"
| "interface (RV _ x) = Return x"

text \<open>
  \<^verbatim>\<open>Value.Elem()\<close>: the Value a pointer points to, the zero Value for a nil pointer; it
  panics on a kind other than Interface and Ptr.
\<close>

fun elem :: "rvalue \<Rightarrow> rvalue outcome" where
  "elem (RV (TPtr t) (VPtr _ x)) = Return (RV t x)"
| "elem (RV (TPtr t) (VNilPtr _)) = Return Zero"
| "elem (RV TInterface x) = Return (valueOf x)"
| "elem _ = Panic ValueError"

text \<open>
  \<^verbatim>\<open>Value.FieldByName(name)\<close>: it panics unless the Value has kind Struct, and returns
  the zero Value when the struct has no field of that name.
\<close>

definition lookupField :: "(string \<times> gtype \<times> gval) list \<Rightarrow> string \<Rightarrow> rvalue" where
  "lookupField fs name =
     (case find (\<lambda>(n, _, _). n = name) fs of
        None \<Rightarrow> Zero
      | Some (_, t, x) \<Rightarrow> RV t x)"

fun fieldByName :: "rvalue \<Rightarrow> string \<Rightarrow> rvalue outcome" where
  "fieldByName (RV (TStruct _) (VStruct _ fs)) name = Return (lookupField fs name)"
| "fieldByName _ _ = Panic ValueError"

text \<open>
  \<^verbatim>\<open>reflect.DeepEqual(x, y)\<close>: when one of the two is the nil interface, both must be;
  otherwise the types must be identical and the contents deeply equal. Slices and
  arrays are compared element by element, a nil slice differs from an empty one, maps
  are compared key by key whatever the order, a nil map differs from an empty one,
  structs field by field, pointers by what they point to.
\<close>

fun deepEqual :: "gval \<Rightarrow> gval \<Rightarrow> bool"
  and deepEqualList :: "gval list \<Rightarrow> gval list \<Rightarrow> bool"
  and deepEqualFields :: "(string \<times> gtype \<times> gval) list \<Rightarrow> (string \<times> gtype \<times> gval) list \<Rightarrow> bool"
  and deepEqualEntries :: "(gval \<times> gval) list \<Rightarrow> (gval \<times> gval) list \<Rightarrow> bool"
where
  "deepEqual VNil y = (y = VNil)"
| "deepEqual (VBool a) y = (y = VBool a)"
| "deepEqual (VInt a) y = (y = VInt a)"
| "deepEqual (VString a) y = (y = VString a)"
| "deepEqual (VSlice t xs) y =
     (case y of VSlice t' ys \<Rightarrow> t = t' \<and> deepEqualList xs ys | _ \<Rightarrow> False)"
| "deepEqual (VNilSlice t) y = (y = VNilSlice t)"
| "deepEqual (VArray t xs) y =
     (case y of VArray t' ys \<Rightarrow> t = t' \<and> deepEqualList xs ys | _ \<Rightarrow> False)"
| "deepEqual (VMap kt et m) y =
     (case y of
        VMap kt' et' m' \<Rightarrow>
          kt = kt' \<and> et = et' \<and> length m = length m' \<and> deepEqualEntries m m'
      | _ \<Rightarrow> False)"
| "deepEqual (VNilMap kt et) y = (y = VNilMap kt et)"
| "deepEqual (VStruct n fs) y =
     (case y of VStruct n' gs \<Rightarrow> n = n' \<and> deepEqualFields fs gs | _ \<Rightarrow> False)"
| "deepEqual (VPtr t x) y =
     (case y of VPtr t' x' \<Rightarrow> t = t' \<and> deepEqual x x' | _ \<Rightarrow> False)"
| "deepEqual (VNilPtr t) y = (y = VNilPtr t)"
| "deepEqualList [] ys = (ys = [])"
| "deepEqualList (x # xs) ys =
     (case ys of [] \<Rightarrow> False | y # ys' \<Rightarrow> deepEqual x y \<and> deepEqualList xs ys')"
| "deepEqualFields [] gs = (gs = [])"
| "deepEqualFields ((_, _, x) # fs) gs =
     (case gs of [] \<Rightarrow> False | (_, _, y) # gs' \<Rightarrow> deepEqual x y \<and> deepEqualFields fs gs')"
| "deepEqualEntries [] m' = True"
| "deepEqualEntries ((key, x) # m) m' =
     ((case map_of m' key of None \<Rightarrow> False | Some y \<Rightarrow> deepEqual x y)
      \<and> deepEqualEntries m m')"

section \<open>The predicate filter: doFilter, filter, mustFilter\<close>

text \<open>The loop of \<^verbatim>\<open>doFilter\<close> over \<^verbatim>\<open>rv.MapKeys()\<close>.\<close>

fun mapLoop :: "rvalue \<Rightarrow> rvalue list \<Rightarrow> string \<Rightarrow> gval \<Rightarrow> bool outcome" where
  "mapLoop rv [] k v = Return False"
| "mapLoop rv (key # keys) k v =
     (if rstring key = k then
        (case interface (mapIndex rv key) of
           Panic p \<Rightarrow> Panic p
         | Return x \<Rightarrow> Return (deepEqual x v))
      else mapLoop rv keys k v)"

definition doFilter :: "gval \<Rightarrow> string \<Rightarrow> gval \<Rightarrow> bool outcome" where
  "doFilter item k v =
     (let rv = valueOf item in
      if rkind rv = KMap then mapLoop rv (mapKeys rv) k v
      else
        (case (if rkind rv = KPtr then
                 (case elem rv of Panic p \<Rightarrow> Panic p | Return e \<Rightarrow> fieldByName e k)
               else fieldByName rv k) of
           Panic p \<Rightarrow> Panic p
         | Return el \<Rightarrow> Return (deepEqual (VString (rstring el)) v)))"

text \<open>The type assertion \<^verbatim>\<open>k.(string)\<close>.\<close>

fun assertString :: "gval \<Rightarrow> string outcome" where
  "assertString (VString s) = Return s"
| "assertString _ = Panic InterfaceConversion"

text \<open>
  The loop of \<^verbatim>\<open>mustFilter\<close> over the elements \<^verbatim>\<open>l2.Index(i).Interface()\<close>,
  \<open>i = 0, ..., l - 1\<close>, with the result accumulated so far.
\<close>

fun filterLoop :: "gval \<Rightarrow> gval \<Rightarrow> gval list \<Rightarrow> gval list \<Rightarrow> gval list outcome" where
  "filterLoop k v [] res = Return res"
| "filterLoop k v (item # items) res =
     (case assertString k of
        Panic p \<Rightarrow> Panic p
      | Return key \<Rightarrow>
          (case doFilter item key v of
             Panic p \<Rightarrow> Panic p
           | Return b \<Rightarrow> filterLoop k v items (if b then res @ [item] else res)))"

text \<open>The elements of a slice or an array (a nil slice has length 0).\<close>

fun elems :: "gval \<Rightarrow> gval list" where
  "elems (VSlice _ xs) = xs"
| "elems (VArray _ xs) = xs"
| "elems _ = []"

text \<open>
  \<^verbatim>\<open>mustFilter\<close> returns a \<^verbatim>\<open>[]interface{}\<close> (\<open>VSlice TInterface res\<close>, or the nil slice
  \<open>VNilSlice TInterface\<close>) and an error (its text, or \<open>None\<close> for the nil error).
\<close>

definition mustFilter :: "gval \<Rightarrow> gval \<Rightarrow> gval \<Rightarrow> (gval \<times> string option) outcome" where
  "mustFilter k v list =
     (case typeOf list of
        None \<Rightarrow> Panic NilDereference
      | Some t \<Rightarrow>
          (let tp = kindOf t in
           if tp = KSlice \<or> tp = KArray then
             (case filterLoop k v (elems list) [] of
                Panic p \<Rightarrow> Panic p
              | Return res \<Rightarrow> Return (VSlice TInterface res, None))
           else if tp = KMap then
             (case assertString k of
                Panic p \<Rightarrow> Panic p
              | Return key \<Rightarrow>
                  (case doFilter list key v of
                     Panic p \<Rightarrow> Panic p
                   | Return b \<Rightarrow>
                       if b then Return (VSlice TInterface [list], None)
                       else Return (VNilSlice TInterface, None)))
           else
             Return (VNilSlice TInterface,
                     Some (''cannot filter on type '' @ kindString tp))))"

text \<open>
  The function \<^verbatim>\<open>filter\<close> of the source (the name \<open>filter\<close> is the one of lists here):
  \<^verbatim>\<open>panic(err)\<close> on an error of \<^verbatim>\<open>mustFilter\<close>, its slice otherwise.
\<close>

definition filter_fn :: "gval \<Rightarrow> gval \<Rightarrow> gval \<Rightarrow> gval outcome" where
  "filter_fn k v list =
     (case mustFilter k v list of
        Panic p \<Rightarrow> Panic p
      | Return (l, err) \<Rightarrow>
          (case err of Some e \<Rightarrow> Panic (ErrorValue e) | None \<Rightarrow> Return l))"

subsection \<open>Shapes of collections and elements\<close>

text \<open>A collection that is a slice or an array, and one that is a map.\<close>

definition sequenceLike :: "gval \<Rightarrow> bool" where
  "sequenceLike c =
     (case typeOf c of
        Some (TSlice _) \<Rightarrow> True
      | Some (TArray _ _) \<Rightarrow> True
      | _ \<Rightarrow> False)"

definition mapLike :: "gval \<Rightarrow> bool" where
  "mapLike c = (case typeOf c of Some (TMap _ _) \<Rightarrow> True | _ \<Rightarrow> False)"

text \<open>An element whose type is a map, a struct or a pointer to a struct.\<close>

definition recordLike :: "gval \<Rightarrow> bool" where
  "recordLike x =
     (case typeOf x of
        Some (TMap _ _) \<Rightarrow> True
      | Some (TStruct _) \<Rightarrow> True
      | Some (TPtr (TStruct _)) \<Rightarrow> True
      | _ \<Rightarrow> False)"


section \<open>The format bridge\<close>

text \<open>
  The encoders and parsers are libraries outside the repository
  (\<^verbatim>\<open>sigs.k8s.io/yaml\<close>, \<^verbatim>\<open>encoding/json\<close>, \<^verbatim>\<open>github.com/BurntSushi/toml\<close>,
  \<^verbatim>\<open>k8s.io/apimachinery/pkg/util/yaml\<close>); every function below takes the library
  call it makes as a parameter.

  The entries of a \<^verbatim>\<open>map[string]interface{}\<close> are a list. An encoder returns the bytes
  it produced and the text \<^verbatim>\<open>err.Error()\<close> of its error (\<open>None\<close> for the nil error).
  A parser of a sequence is given the text and the content of the variable it decodes
  into, and returns the content it leaves there and its error. A slice result is the
  list of its elements (a nil slice is the empty list).
\<close>

type_synonym gmap = "(string \<times> gval) list"

text \<open>
  A variable of type \<^verbatim>\<open>map[string]interface{}\<close> holds the nil map or a map with its
  entries.
\<close>

datatype gomap = NilMap | GoMap gmap

fun entries :: "gomap \<Rightarrow> gmap" where
  "entries NilMap = []"
| "entries (GoMap m) = m"

text \<open>
  A parser of a map is given the text and the entries of the (non-nil) map it decodes
  into. \<open>Failed m e\<close>: it returns the error with the text \<open>e\<close>, and the map holds the
  entries \<open>m\<close> then (a parser is taken not to leave a nil map when it reports an error:
  the assignment \<^verbatim>\<open>m["Error"] = ...\<close> would panic on one). \<open>Parsed m\<close>: it returns the nil
  error, and the variable holds \<open>m\<close>, which is the nil map after the text \<^verbatim>\<open>null\<close>.
\<close>

datatype parsed = Failed gmap string | Parsed gomap

type_synonym marshal = "gval \<Rightarrow> string \<times> string option"

type_synonym unmarshal = "string \<Rightarrow> gmap \<Rightarrow> parsed"

type_synonym unmarshalArray = "string \<Rightarrow> gval list \<Rightarrow> gval list \<times> string option"

text \<open>
  The \<^verbatim>\<open>interface{}\<close> value that holds a non-nil \<^verbatim>\<open>map[string]interface{}\<close> with the
  given entries, and the one that holds the content of a map variable.
\<close>

definition mapValue :: "gmap \<Rightarrow> gval" where
  "mapValue m = VMap TString TInterface (map (\<lambda>(k, x). (VString k, x)) m)"

fun mapInterface :: "gomap \<Rightarrow> gval" where
  "mapInterface NilMap = VNilMap TString TInterface"
| "mapInterface (GoMap m) = mapValue m"

text \<open>The assignment \<^verbatim>\<open>m[k] = x\<close>.\<close>

fun setKey :: "string \<Rightarrow> gval \<Rightarrow> gmap \<Rightarrow> gmap" where
  "setKey k x [] = [(k, x)]"
| "setKey k x ((k', y) # m) = (if k' = k then (k, x) # m else (k', y) # setKey k x m)"

text \<open>\<^verbatim>\<open>strings.TrimSuffix\<close>.\<close>

definition trimSuffix :: "string \<Rightarrow> string \<Rightarrow> string" where
  "trimSuffix s suffix =
     (if length suffix \<le> length s \<and> drop (length s - length suffix) s = suffix
      then take (length s - length suffix) s else s)"

definition toYAML :: "marshal \<Rightarrow> gval \<Rightarrow> string" where
  "toYAML yamlMarshal v =
     (case yamlMarshal v of
        (data, Some err) \<Rightarrow> []
      | (data, None) \<Rightarrow> trimSuffix data [CHR 0x0A])"

definition fromYAML :: "unmarshal \<Rightarrow> string \<Rightarrow> gomap" where
  "fromYAML yamlUnmarshal str =
     (case yamlUnmarshal str [] of
        Failed m err \<Rightarrow> GoMap (setKey ''Error'' (VString err) m)
      | Parsed m \<Rightarrow> m)"

definition fromYAMLArray :: "unmarshalArray \<Rightarrow> string \<Rightarrow> gval list" where
  "fromYAMLArray yamlUnmarshal str =
     (case yamlUnmarshal str [] of
        (a, Some err) \<Rightarrow> [VString err]
      | (a, None) \<Rightarrow> a)"

text \<open>
  The decoder of \<^verbatim>\<open>fromYamlDocument\<close>: \<open>newDecoder\<close> makes its state from the text,
  \<open>decode\<close> is one call \<^verbatim>\<open>decoder.Decode(&m)\<close> on a state and the content of \<open>m\<close>,
  giving the content it leaves in \<open>m\<close>, its error and the next state. The error
  \<^verbatim>\<open>io.EOF\<close> is told apart from every other error.
\<close>

datatype derror = EOF | DecodeError string

type_synonym 'd decode = "'d \<Rightarrow> gmap \<Rightarrow> (gmap \<times> derror option) \<times> 'd"

text \<open>The loop \<^verbatim>\<open>for { ... }\<close>; \<open>None\<close> when it runs forever.\<close>

partial_function (option) documentLoop :: "'d decode \<Rightarrow> 'd \<Rightarrow> gmap list \<Rightarrow> gmap list option" where
  "documentLoop decode d li =
     (case decode d [] of
        ((m, Some EOF), d') \<Rightarrow> Some li
      | ((m, Some (DecodeError err)), d') \<Rightarrow> Some [setKey ''Error'' (VString err) m]
      | ((m, None), d') \<Rightarrow> documentLoop decode d' (li @ [m]))"

definition fromYamlDocument :: "(string \<Rightarrow> 'd) \<Rightarrow> 'd decode \<Rightarrow> string \<Rightarrow> gmap list option" where
  "fromYamlDocument newDecoder decode str = documentLoop decode (newDecoder str) []"

definition toTOML :: "marshal \<Rightarrow> gval \<Rightarrow> string" where
  "toTOML tomlEncode v =
     (case tomlEncode v of
        (b, Some err) \<Rightarrow> err
      | (b, None) \<Rightarrow> b)"

definition toJSON :: "marshal \<Rightarrow> gval \<Rightarrow> string" where
  "toJSON jsonMarshal v =
     (case jsonMarshal v of
        (data, Some err) \<Rightarrow> []
      | (data, None) \<Rightarrow> data)"

definition fromJSON :: "unmarshal \<Rightarrow> string \<Rightarrow> gomap" where
  "fromJSON jsonUnmarshal str =
     (case jsonUnmarshal str [] of
        Failed m err \<Rightarrow> GoMap (setKey ''Error'' (VString err) m)
      | Parsed m \<Rightarrow> m)"

definition fromJSONArray :: "unmarshalArray \<Rightarrow> string \<Rightarrow> gval list" where
  "fromJSONArray jsonUnmarshal str =
     (case jsonUnmarshal str [] of
        (a, Some err) \<Rightarrow> [VString err]
      | (a, None) \<Rightarrow> a)"

subsection \<open>Runs of the decoder\<close>

text \<open>
  \<open>decodes decode d ms d'\<close>: from the state \<open>d\<close>, successive calls of \<open>decode\<close>, each on a
  fresh empty map, succeed with the documents \<open>ms\<close> in this order and lead to the
  state \<open>d'\<close>.
\<close>

fun decodes :: "'d decode \<Rightarrow> 'd \<Rightarrow> gmap list \<Rightarrow> 'd \<Rightarrow> bool" where
  "decodes decode d [] d' = (d' = d)"
| "decodes decode d (m # ms) d' =
     (case decode d [] of
        ((m', None), d1) \<Rightarrow> m' = m \<and> decodes decode d1 ms d'
      | _ \<Rightarrow> False)"

text \<open>
  A decoder for concrete runs: its state is the list of the results its calls still
  have to give, and it reports \<^verbatim>\<open>io.EOF\<close> when the list is used up.
\<close>

fun replay :: "(gmap \<times> derror option) list decode" where
  "replay [] m = ((m, Some EOF), [])"
| "replay (r # rs) m = (r, rs)"

section \<open>Properties of the predicate filter\<close>

subsection \<open>The match rule\<close>

lemma mapLoop_find:
  "\<forall>(key, x) \<in> set pre. rstring (RV kt key) \<noteq> k \<Longrightarrow>
   mapLoop (RV (TMap kt et) (VMap kt' et' (pre @ rest))) (map (\<lambda>(key, _). RV kt key) rest) k v =
   Return (case find (\<lambda>(key, _). rstring (RV kt key) = k) rest of
             None \<Rightarrow> False
           | Some (_, x) \<Rightarrow> deepEqual x v)"
proof (induction rest arbitrary: pre)
  case Nil
  then show ?case by simp
next
  case (Cons e rest)
  obtain key x where e: "e = (key, x)" by (cases e)
  show ?case
  proof (cases "rstring (RV kt key) = k")
    case True
    have "key \<notin> fst ` set pre" using Cons.prems True by force
    then have "map_of pre key = None"
      by (simp add: map_of_eq_None_iff)
    then have "map_of (pre @ (key, x) # rest) key = Some x"
      by (simp add: map_add_def)
    then show ?thesis using True e by simp
  next
    case False
    have "\<forall>(key', x') \<in> set (pre @ [e]). rstring (RV kt key') \<noteq> k"
      using Cons.prems False e by auto
    from Cons.IH [OF this] show ?thesis using False e by simp
  qed
qed

lemma doFilter_map:
  "doFilter (VMap kt et m) k v =
   Return (case find (\<lambda>(key, _). rstring (RV kt key) = k) m of
             None \<Rightarrow> False
           | Some (_, x) \<Rightarrow> deepEqual x v)"
  using mapLoop_find [of "[]" kt k et kt et m v]
  by (simp add: doFilter_def valueOf_def)


lemma doFilter_struct:
  "doFilter (VStruct n fs) k v = Return (v = VString (rstring (lookupField fs k)))"
  by (simp add: doFilter_def valueOf_def)

lemma doFilter_ptr_struct:
  "doFilter (VPtr (TStruct n) (VStruct n' fs)) k v =
   Return (v = VString (rstring (lookupField fs k)))"
  by (simp add: doFilter_def valueOf_def)

lemma find_mapValue:
  "find (\<lambda>(key, _). rstring (RV TString key) = k) (map (\<lambda>(k, x). (VString k, x)) m) =
   map_option (\<lambda>x. (VString k, x)) (map_of m k)"
  by (induction m) auto

lemma doFilter_mapValue:
  "doFilter (mapValue m) k v =
   Return (case map_of m k of None \<Rightarrow> False | Some x \<Rightarrow> deepEqual x v)"
  by (simp add: mapValue_def doFilter_map find_mapValue split: option.splits)



subsection \<open>Panics of the match rule\<close>

lemma mapLoop_panic: "mapLoop rv keys k v = Panic p \<Longrightarrow> p = ValueError"
proof (induction keys)
  case Nil
  then show ?case by simp
next
  case (Cons key keys)
  then show ?case
    by (cases "mapIndex rv key") (auto split: if_splits)
qed

lemma fieldByName_panic: "fieldByName rv k = Panic p \<Longrightarrow> p = ValueError"
  by (induction rv k rule: fieldByName.induct) simp_all

lemma elem_panic: "elem rv = Panic p \<Longrightarrow> p = ValueError"
  by (induction rv rule: elem.induct) simp_all

lemma doFilter_panic: "doFilter x k v = Panic p \<Longrightarrow> p = ValueError"
  unfolding doFilter_def Let_def
  by (auto split: if_splits outcome.splits dest: mapLoop_panic fieldByName_panic elem_panic)

lemma fieldByName_not_struct:
  "kindOf t \<noteq> KStruct \<Longrightarrow> fieldByName (RV t x) k = Panic ValueError"
  by (cases t) simp_all

lemma not_recordLike_panics: "\<not> recordLike x \<Longrightarrow> doFilter x k v = Panic ValueError"
proof (cases x)
  case (VPtr t y)
  assume "\<not> recordLike x"
  then have "kindOf t \<noteq> KStruct" using VPtr by (cases t) (simp_all add: recordLike_def)
  then show ?thesis using VPtr by (simp add: doFilter_def valueOf_def fieldByName_not_struct)
next
  case (VNilPtr t)
  then show ?thesis by (simp add: doFilter_def valueOf_def)
qed (simp_all add: recordLike_def doFilter_def valueOf_def)

subsection \<open>The loop over a sequence\<close>


lemma filterLoop_panics:
  "x \<in> set xs \<Longrightarrow> doFilter x k v = Panic p \<Longrightarrow>
   filterLoop (VString k) v xs res = Panic ValueError"
proof (induction xs arbitrary: res)
  case Nil
  then show ?case by simp
next
  case (Cons y ys)
  show ?case
  proof (cases "doFilter y k v")
    case (Panic q)
    then have "q = ValueError" by (rule doFilter_panic)
    then show ?thesis using Panic by simp
  next
    case (Return b)
    then have "x \<in> set ys" using Cons.prems by auto
    from Cons.IH [OF this Cons.prems(2)] show ?thesis using Return by simp
  qed
qed

subsection \<open>The dispatch of mustFilter on the kind of the collection\<close>

lemma mustFilter_sequence:
  "sequenceLike c \<Longrightarrow>
   mustFilter k v c =
     (case filterLoop k v (elems c) [] of
        Panic p \<Rightarrow> Panic p
      | Return res \<Rightarrow> Return (VSlice TInterface res, None))"
  by (cases c) (auto simp: sequenceLike_def mustFilter_def)

lemma mustFilter_map:
  "mapLike c \<Longrightarrow>
   mustFilter k v c =
     (case assertString k of
        Panic p \<Rightarrow> Panic p
      | Return key \<Rightarrow>
          (case doFilter c key v of
             Panic p \<Rightarrow> Panic p
           | Return b \<Rightarrow>
               if b then Return (VSlice TInterface [c], None)
               else Return (VNilSlice TInterface, None)))"
  by (cases c) (auto simp: mapLike_def mustFilter_def)

lemma mustFilter_other:
  "typeOf c = Some t \<Longrightarrow> \<not> sequenceLike c \<Longrightarrow> \<not> mapLike c \<Longrightarrow>
   mustFilter k v c =
     Return (VNilSlice TInterface, Some (''cannot filter on type '' @ kindString (kindOf t)))"
  by (cases c) (auto simp: mapLike_def sequenceLike_def mustFilter_def)

subsection \<open>Claim C1\<close>




subsection \<open>Claim C2\<close>

text \<open>
  Claim C2 says that a map element matches iff the value under the key whose string
  form is the predicate key is deep-equal to the predicate value (the integer 42 does
  not match \<^verbatim>\<open>"42"\<close>), and that a struct element, or a pointer to one, matches iff the
  string representation of the field named by the predicate key equals that of the
  predicate value (an integer field 42 matches \<^verbatim>\<open>"42"\<close>). The code does the first. For
  the second it calls \<^verbatim>\<open>el.String()\<close> on the field, which gives the content of a string
  field only and does not format a field of another type: on a struct, and on a
  pointer to a struct, whose integer field \<open>N\<close> is 42, \<^verbatim>\<open>doFilter\<close> returns false for the
  predicate value \<^verbatim>\<open>"42"\<close>, and for 42 as well, while a string field \<^verbatim>\<open>"42"\<close> matches
  \<^verbatim>\<open>"42"\<close> and the map path matches the value 42 with 42.
\<close>

theorem doFilter_int_field:
  "doFilter (VStruct ''T'' [(''N'', TInt, VInt 42)]) ''N'' (VString ''42'') = Return False
   \<and> doFilter (VPtr (TStruct ''T'') (VStruct ''T'' [(''N'', TInt, VInt 42)])) ''N''
        (VString ''42'') = Return False
   \<and> doFilter (VStruct ''T'' [(''N'', TInt, VInt 42)]) ''N'' (VInt 42) = Return False
   \<and> doFilter (VStruct ''T'' [(''N'', TString, VString ''42'')]) ''N'' (VString ''42'') = Return True
   \<and> doFilter (mapValue [(''N'', VInt 42)]) ''N'' (VInt 42) = Return True
   \<and> doFilter (mapValue [(''N'', VInt 42)]) ''N'' (VString ''42'') = Return False"
  by (simp add: doFilter_struct doFilter_ptr_struct doFilter_mapValue lookupField_def)

subsection \<open>Claim C7\<close>

text \<open>
  Claim C7, as amended. For every predicate key, predicate value and collection,
  \<^verbatim>\<open>filter\<close> panics exactly when \<^verbatim>\<open>mustFilter\<close> returns an error or itself panics on the
  same arguments: it panics with the error that \<^verbatim>\<open>mustFilter\<close> returns, it panics as
  \<^verbatim>\<open>mustFilter\<close> does, and when \<^verbatim>\<open>mustFilter\<close> returns a slice and no error it returns
  the same slice. \<^verbatim>\<open>mustFilter\<close> returns an error exactly when the collection is not nil
  and is neither a slice, an array nor a map.
\<close>

theorem filter_fn_mustFilter:
  "((\<exists>p. filter_fn k v c = Panic p) \<longleftrightarrow>
      (\<exists>l e. mustFilter k v c = Return (l, Some e)) \<or> (\<exists>p. mustFilter k v c = Panic p))
   \<and> (\<forall>l. mustFilter k v c = Return (l, None) \<longrightarrow> filter_fn k v c = Return l)
   \<and> (\<forall>l e. mustFilter k v c = Return (l, Some e) \<longrightarrow> filter_fn k v c = Panic (ErrorValue e))
   \<and> (\<forall>p. mustFilter k v c = Panic p \<longrightarrow> filter_fn k v c = Panic p)
   \<and> ((\<exists>l e. mustFilter k v c = Return (l, Some e)) \<longleftrightarrow>
        typeOf c \<noteq> None \<and> \<not> sequenceLike c \<and> \<not> mapLike c)"
proof -
  have err: "(\<exists>l e. mustFilter k v c = Return (l, Some e)) \<longleftrightarrow>
      typeOf c \<noteq> None \<and> \<not> sequenceLike c \<and> \<not> mapLike c"
  proof (cases "typeOf c")
    case None
    then show ?thesis by (simp add: mustFilter_def)
  next
    case (Some t)
    show ?thesis
    proof (cases "sequenceLike c")
      case True
      then show ?thesis
        by (simp add: mustFilter_sequence split: outcome.splits)
    next
      case notseq: False
      show ?thesis
      proof (cases "mapLike c")
        case True
        then show ?thesis
          by (simp add: mustFilter_map split: outcome.splits)
      next
        case False
        then show ?thesis using Some notseq by (simp add: mustFilter_other)
      qed
    qed
  qed
  have rest: "((\<exists>p. filter_fn k v c = Panic p) \<longleftrightarrow>
      (\<exists>l e. mustFilter k v c = Return (l, Some e)) \<or> (\<exists>p. mustFilter k v c = Panic p))
   \<and> (\<forall>l. mustFilter k v c = Return (l, None) \<longrightarrow> filter_fn k v c = Return l)
   \<and> (\<forall>l e. mustFilter k v c = Return (l, Some e) \<longrightarrow> filter_fn k v c = Panic (ErrorValue e))
   \<and> (\<forall>p. mustFilter k v c = Panic p \<longrightarrow> filter_fn k v c = Panic p)"
    by (cases "mustFilter k v c") (auto simp: filter_fn_def split: option.splits)
  from rest err show ?thesis by blast
qed

text \<open>The integer 5 as the collection, and a sequence of one matching map.\<close>

theorem filter_fn_mustFilter_witness:
  "mustFilter (VString ''name'') (VString ''x'') (VInt 5) =
     Return (VNilSlice TInterface, Some ''cannot filter on type int'')
   \<and> filter_fn (VString ''name'') (VString ''x'') (VInt 5) =
     Panic (ErrorValue ''cannot filter on type int'')
   \<and> mustFilter (VString ''name'') (VString ''x'')
       (VSlice TInterface [mapValue [(''name'', VString ''x'')]]) =
     Return (VSlice TInterface [mapValue [(''name'', VString ''x'')]], None)
   \<and> filter_fn (VString ''name'') (VString ''x'')
       (VSlice TInterface [mapValue [(''name'', VString ''x'')]]) =
     Return (VSlice TInterface [mapValue [(''name'', VString ''x'')]])"
proof -
  have a: "mustFilter (VString ''name'') (VString ''x'') (VInt 5) =
     Return (VNilSlice TInterface, Some ''cannot filter on type int'')"
    by (simp add: mustFilter_def)
  have b: "mustFilter (VString ''name'') (VString ''x'')
       (VSlice TInterface [mapValue [(''name'', VString ''x'')]]) =
     Return (VSlice TInterface [mapValue [(''name'', VString ''x'')]], None)"
    by (simp add: mustFilter_def mapValue_def doFilter_map)
  show ?thesis
    using a b
      filter_fn_mustFilter [of "VString ''name''" "VString ''x''" "VInt 5"]
      filter_fn_mustFilter [of "VString ''name''" "VString ''x''"
        "VSlice TInterface [mapValue [(''name'', VString ''x'')]]"]
    by simp
qed

text \<open>
  The claim as stated fails for the predicate key 1 on a map: \<^verbatim>\<open>filter\<close> panics, and
  \<^verbatim>\<open>mustFilter\<close> reports no error there, since it panics itself in \<^verbatim>\<open>k.(string)\<close>.
\<close>

theorem filter_fn_mustFilter_counterexample:
  "filter_fn (VInt 1) (VString ''x'') (mapValue [(''name'', VString ''x'')]) =
     Panic InterfaceConversion
   \<and> mustFilter (VInt 1) (VString ''x'') (mapValue [(''name'', VString ''x'')]) =
     Panic InterfaceConversion"
  by (simp add: filter_fn_def mustFilter_def mapValue_def)

subsection \<open>Claim C9\<close>

text \<open>
  Claim C9. For a string predicate key and a collection that is a slice or an array
  with at least one element that is neither a map, a struct nor a pointer to a struct,
  \<^verbatim>\<open>mustFilter\<close> panics with the panic of package reflect (\<^verbatim>\<open>FieldByName\<close> on a Value
  that is not a struct): it neither returns an error nor skips the element.
\<close>

theorem mustFilter_scalar_element_panics:
  "sequenceLike c \<Longrightarrow> x \<in> set (elems c) \<Longrightarrow> \<not> recordLike x \<Longrightarrow>
   mustFilter (VString k) v c = Panic ValueError"
proof -
  assume s: "sequenceLike c" and x: "x \<in> set (elems c)" and n: "\<not> recordLike x"
  from n have "doFilter x k v = Panic ValueError" by (rule not_recordLike_panics)
  with x have "filterLoop (VString k) v (elems c) [] = Panic ValueError"
    by (rule filterLoop_panics)
  with s show ?thesis by (simp add: mustFilter_sequence)
qed

text \<open>A slice of strings, and an array whose second element is an integer.\<close>

theorem mustFilter_scalar_element_panics_witness:
  "mustFilter (VString ''name'') (VString ''x'') (VSlice TString [VString ''a'', VString ''b'']) =
     Panic ValueError
   \<and> mustFilter (VString ''name'') (VInt 1)
       (VArray TInterface [mapValue [(''name'', VInt 1)], VInt 1]) = Panic ValueError"
  using
    mustFilter_scalar_element_panics [of "VSlice TString [VString ''a'', VString ''b'']" "VString ''a''"
      "''name''" "VString ''x''"]
    mustFilter_scalar_element_panics [of "VArray TInterface [mapValue [(''name'', VInt 1)], VInt 1]" "VInt 1"
      "''name''" "VInt 1"]
  by (simp add: sequenceLike_def recordLike_def)

subsection \<open>Claim C10\<close>

text \<open>
  Claim C10. For a predicate key that is not a string, \<^verbatim>\<open>mustFilter\<close> panics in the
  type assertion \<^verbatim>\<open>k.(string)\<close> when the collection is a non-empty slice or array, and
  when it is a map; when the collection is an empty slice or array the assertion is
  never reached and \<^verbatim>\<open>mustFilter\<close> returns the empty slice and no error.
\<close>

theorem mustFilter_nonstring_key:
  "(\<forall>s. k \<noteq> VString s) \<Longrightarrow>
   (sequenceLike c \<and> elems c \<noteq> [] \<longrightarrow> mustFilter k v c = Panic InterfaceConversion)
   \<and> (mapLike c \<longrightarrow> mustFilter k v c = Panic InterfaceConversion)
   \<and> (sequenceLike c \<and> elems c = [] \<longrightarrow> mustFilter k v c = Return (VSlice TInterface [], None))"
proof -
  assume "\<forall>s. k \<noteq> VString s"
  then have a: "assertString k = Panic InterfaceConversion"
    by (cases k) simp_all
  have "elems c \<noteq> [] \<Longrightarrow> filterLoop k v (elems c) [] = Panic InterfaceConversion"
    using a by (cases "elems c") simp_all
  then show ?thesis
    using a by (auto simp: mustFilter_sequence mustFilter_map)
qed

text \<open>
  The key 1 on a sequence of one map, the nil key on a map, and the key 1 on the empty
  slice and on the nil slice.
\<close>

theorem mustFilter_nonstring_key_witness:
  "mustFilter (VInt 1) (VString ''x'') (VSlice TInterface [mapValue [(''name'', VString ''x'')]]) =
     Panic InterfaceConversion
   \<and> mustFilter VNil (VString ''x'') (mapValue [(''name'', VString ''x'')]) = Panic InterfaceConversion
   \<and> mustFilter (VInt 1) (VString ''x'') (VSlice TInterface []) = Return (VSlice TInterface [], None)
   \<and> mustFilter (VInt 1) (VString ''x'') (VNilSlice TInterface) = Return (VSlice TInterface [], None)"
  using
    mustFilter_nonstring_key [of "VInt 1" "VSlice TInterface [mapValue [(''name'', VString ''x'')]]"
      "VString ''x''"]
    mustFilter_nonstring_key [of VNil "mapValue [(''name'', VString ''x'')]" "VString ''x''"]
    mustFilter_nonstring_key [of "VInt 1" "VSlice TInterface []" "VString ''x''"]
    mustFilter_nonstring_key [of "VInt 1" "VNilSlice TInterface" "VString ''x''"]
  by (simp add: sequenceLike_def mapLike_def mapValue_def)

section \<open>Properties of the format bridge\<close>

lemma map_of_setKey: "map_of (setKey k x m) = (map_of m)(k \<mapsto> x)"
  by (induction m) auto

lemma documentLoop_decodes:
  "decodes decode d ms d' \<Longrightarrow> documentLoop decode d li = documentLoop decode d' (li @ ms)"
proof (induction ms arbitrary: d li)
  case Nil
  then show ?case by simp
next
  case (Cons m ms)
  then obtain d1 where step: "decode d [] = ((m, None), d1)" and rest: "decodes decode d1 ms d'"
    by (auto split: prod.splits option.splits)
  have "documentLoop decode d li = documentLoop decode d1 (li @ [m])"
    by (subst documentLoop.simps) (simp add: step)
  also have "\<dots> = documentLoop decode d' ((li @ [m]) @ ms)"
    using rest by (rule Cons.IH)
  finally show ?case by simp
qed

lemma documentLoop_eof:
  "decode d [] = ((m, Some EOF), d') \<Longrightarrow> documentLoop decode d li = Some li"
  by (subst documentLoop.simps) simp

lemma documentLoop_error:
  "decode d [] = ((m, Some (DecodeError e)), d') \<Longrightarrow>
   documentLoop decode d li = Some [setKey ''Error'' (VString e) m]"
  by (subst documentLoop.simps) simp

subsection \<open>Claim C3\<close>

text \<open>
  Claim C3. \<^verbatim>\<open>fromYamlDocument\<close> decodes the documents of the text one at a time. When
  the decoder, after the documents \<open>ms\<close>, reports the end of the input, the function
  returns \<open>ms\<close> in the order of the input (the empty sequence when there is no document).
  When the decode that follows \<open>ms\<close> fails with another error, the function drops \<open>ms\<close>
  and returns the one-element sequence holding the map of that decode with its key
  \<^verbatim>\<open>Error\<close> set to the error's description. In both cases the loop ends.
\<close>

theorem fromYamlDocument_contract:
  "decodes decode (newDecoder str) ms d \<Longrightarrow>
   (\<forall>m d'. decode d [] = ((m, Some EOF), d') \<longrightarrow>
      fromYamlDocument newDecoder decode str = Some ms)
   \<and> (\<forall>m e d'. decode d [] = ((m, Some (DecodeError e)), d') \<longrightarrow>
      fromYamlDocument newDecoder decode str = Some [setKey ''Error'' (VString e) m]
      \<and> map_of (setKey ''Error'' (VString e) m) ''Error'' = Some (VString e))"
proof -
  assume "decodes decode (newDecoder str) ms d"
  then have "fromYamlDocument newDecoder decode str = documentLoop decode d ms"
    using documentLoop_decodes [of decode "newDecoder str" ms d "[]"]
    by (simp add: fromYamlDocument_def)
  then show ?thesis
    by (auto simp: documentLoop_eof documentLoop_error map_of_setKey)
qed

text \<open>
  The examples of the specification: two documents, the empty text, and a document
  followed by a malformed one.
\<close>

theorem fromYamlDocument_contract_witness:
  "fromYamlDocument (\<lambda>str. [([(''a'', VInt 1)], None), ([(''b'', VInt 2)], None)]) replay
     ''a: 1 --- b: 2'' = Some [[(''a'', VInt 1)], [(''b'', VInt 2)]]
   \<and> fromYamlDocument (\<lambda>str. []) replay '''' = Some []
   \<and> fromYamlDocument
       (\<lambda>str. [([(''a'', VInt 1)], None), ([], Some (DecodeError ''did not find expected node content''))])
       replay ''a: 1 --- {bad'' =
     Some [[(''Error'', VString ''did not find expected node content'')]]"
  using
    fromYamlDocument_contract [of replay "\<lambda>str. [([(''a'', VInt 1)], None), ([(''b'', VInt 2)], None)]"
      "''a: 1 --- b: 2''" "[[(''a'', VInt 1)], [(''b'', VInt 2)]]" "[]"]
    fromYamlDocument_contract [of replay "\<lambda>str. []" "''''" "[]" "[]"]
    fromYamlDocument_contract [of replay
      "\<lambda>str. [([(''a'', VInt 1)], None), ([], Some (DecodeError ''did not find expected node content''))]"
      "''a: 1 --- {bad''" "[[(''a'', VInt 1)]]"
      "[([], Some (DecodeError ''did not find expected node content''))]"]
  by simp

subsection \<open>Claim C4\<close>

text \<open>
  Claim C4, as amended. When the parser fails on the text with the error description
  \<open>e\<close>, \<^verbatim>\<open>fromYaml\<close> and \<^verbatim>\<open>fromJson\<close> return the map that the parser was filling, with the
  key \<^verbatim>\<open>Error\<close> set to \<open>e\<close>: every other entry the parser stored before it failed is still
  there. The result is the map with the single entry \<^verbatim>\<open>Error\<close> when the parser stored
  nothing, as on a syntax error.
\<close>

theorem fromYAML_fromJSON_on_error:
  "(yamlUnmarshal str [] = Failed m e \<longrightarrow>
      fromYAML yamlUnmarshal str = GoMap (setKey ''Error'' (VString e) m)
      \<and> map_of (entries (fromYAML yamlUnmarshal str)) = (map_of m)(''Error'' \<mapsto> VString e)
      \<and> (m = [] \<longrightarrow> fromYAML yamlUnmarshal str = GoMap [(''Error'', VString e)]))
   \<and> (jsonUnmarshal str' [] = Failed m' e' \<longrightarrow>
      fromJSON jsonUnmarshal str' = GoMap (setKey ''Error'' (VString e') m')
      \<and> map_of (entries (fromJSON jsonUnmarshal str')) = (map_of m')(''Error'' \<mapsto> VString e')
      \<and> (m' = [] \<longrightarrow> fromJSON jsonUnmarshal str' = GoMap [(''Error'', VString e')]))"
  by (simp add: fromYAML_def fromJSON_def map_of_setKey)

text \<open>Parsers that fail on a syntax error, before they store anything.\<close>

theorem fromYAML_fromJSON_on_error_witness:
  "fromYAML (\<lambda>str m. Failed m ''mapping values are not allowed in this context'')
     ''not: valid: yaml: :'' =
     GoMap [(''Error'', VString ''mapping values are not allowed in this context'')]
   \<and> fromJSON (\<lambda>str m. Failed m ''unexpected end of JSON input'') ''{'' =
     GoMap [(''Error'', VString ''unexpected end of JSON input'')]"
  using fromYAML_fromJSON_on_error [of "\<lambda>str m. Failed m ''mapping values are not allowed in this context''"
      "''not: valid: yaml: :''" "[]" "''mapping values are not allowed in this context''"
      "\<lambda>str m. Failed m ''unexpected end of JSON input''" "''{''" "[]" "''unexpected end of JSON input''"]
  by simp

text \<open>
  The claim as stated fails when the parser stores fields and then reports an error:
  \<^verbatim>\<open>fromJSON\<close> does not clear the map before it sets \<^verbatim>\<open>Error\<close>. Package encoding/json
  does so when a number overflows its target: its documentation says that Unmarshal
  then skips that field, completes the unmarshaling as best it can, and returns an
  UnmarshalTypeError describing the earliest such error. On the text below (valid JSON,
  the number \<^verbatim>\<open>1e999\<close> is out of the range of float64) the map holds \<^verbatim>\<open>a\<close> and \<^verbatim>\<open>b\<close> when the
  error comes back, and the result has three entries.
\<close>

theorem fromYAML_fromJSON_on_error_counterexample:
  "fromJSON
     (\<lambda>str m. Failed (setKey ''b'' VNil (setKey ''a'' (VString ''x'') m))
        ''json: cannot unmarshal number 1e999 into Go value of type float64'')
     ''{\"a\":\"x\",\"b\":1e999}'' =
   GoMap [(''a'', VString ''x''), (''b'', VNil),
    (''Error'', VString ''json: cannot unmarshal number 1e999 into Go value of type float64'')]"
  by (simp add: fromJSON_def)

subsection \<open>Claim C5\<close>

text \<open>
  Claim C5. When the parser fails on the text with the error description \<open>e\<close>,
  \<^verbatim>\<open>fromYamlArray\<close> and \<^verbatim>\<open>fromJsonArray\<close> return the one-element sequence whose element is
  the string \<open>e\<close>, whatever the parser had stored; the element is a string and not a
  map, unlike the result of \<^verbatim>\<open>fromYaml\<close> and \<^verbatim>\<open>fromJson\<close>.
\<close>

theorem fromArray_on_error:
  "(yamlUnmarshal str [] = (a, Some e) \<longrightarrow>
      fromYAMLArray yamlUnmarshal str = [VString e]
      \<and> fromYAMLArray yamlUnmarshal str \<noteq> [mapInterface (fromYAML yamlUnmarshalMap str)])
   \<and> (jsonUnmarshal str' [] = (a', Some e') \<longrightarrow>
      fromJSONArray jsonUnmarshal str' = [VString e']
      \<and> fromJSONArray jsonUnmarshal str' \<noteq> [mapInterface (fromJSON jsonUnmarshalMap str')])"
proof -
  have "VString s \<noteq> mapInterface g" for s g
    by (cases g) (simp_all add: mapValue_def)
  then show ?thesis
    by (simp add: fromYAMLArray_def fromJSONArray_def)
qed

text \<open>A parser that fails at once, and one that fails after it stored an element.\<close>

theorem fromArray_on_error_witness:
  "fromYAMLArray (\<lambda>str a. (a, Some ''did not find expected node content'')) ''{bad'' =
     [VString ''did not find expected node content'']
   \<and> fromJSONArray (\<lambda>str a. (VInt 1 # a, Some ''unexpected end of JSON input'')) ''[1,'' =
     [VString ''unexpected end of JSON input'']"
  using fromArray_on_error [of "\<lambda>str a. (a, Some ''did not find expected node content'')" "''{bad''" "[]"
      "''did not find expected node content''" "\<lambda>str m. Parsed (GoMap m)"
      "\<lambda>str a. (VInt 1 # a, Some ''unexpected end of JSON input'')" "''[1,''" "[VInt 1]"
      "''unexpected end of JSON input''" "\<lambda>str m. Parsed (GoMap m)"]
  by simp

subsection \<open>Claim C6\<close>

text \<open>
  Claim C6. When the encoder fails on a value, \<^verbatim>\<open>toYaml\<close> and \<^verbatim>\<open>toJson\<close> return the empty
  string, and \<^verbatim>\<open>toToml\<close> returns the description of the error; each of the three returns
  a string and nothing else.
\<close>

theorem toText_on_error:
  "(yamlMarshal v = (data, Some e) \<longrightarrow> toYAML yamlMarshal v = [])
   \<and> (jsonMarshal v = (data', Some e') \<longrightarrow> toJSON jsonMarshal v = [])
   \<and> (tomlEncode v = (b, Some e'') \<longrightarrow> toTOML tomlEncode v = e'')"
  by (simp add: toYAML_def toJSON_def toTOML_def)

text \<open>Encoders that reject the value; the one of TOML had written to its buffer.\<close>

theorem toText_on_error_witness:
  "toYAML (\<lambda>v. ([], Some ''unsupported type'')) (VInt 1) = []
   \<and> toJSON (\<lambda>v. ([], Some ''unsupported type'')) (VInt 1) = []
   \<and> toTOML (\<lambda>v. (''a = '', Some ''unsupported type'')) (VInt 1) = ''unsupported type''"
  using toText_on_error [of "\<lambda>v. ([], Some ''unsupported type'')" "VInt 1" "[]" "''unsupported type''"
      "\<lambda>v. ([], Some ''unsupported type'')" "[]" "''unsupported type''"
      "\<lambda>v. (''a = '', Some ''unsupported type'')" "''a = ''" "''unsupported type''"]
  by simp

end
